theory Spec2Isabelle
  imports Main "HOL-Library.Sublist"
begin

section \<open>Python strings\<close>

text \<open>
  The engine of \<^verbatim>\<open>utils/azure_ai.py\<close> works on Python \<^verbatim>\<open>str\<close> values. A \<^verbatim>\<open>str\<close> is
  modelled as a \<^typ>\<open>string\<close>, each \<^typ>\<open>char\<close> standing for one code point below 256
  (ASCII and Latin-1). The operations below are the \<^verbatim>\<open>str\<close> methods the engine calls,
  with Python's behaviour on that range.
\<close>

definition lower_char :: "char \<Rightarrow> char" where
  "lower_char c =
     (let n = (of_char c :: nat) in
      if (65 \<le> n \<and> n \<le> 90) \<or> (192 \<le> n \<and> n \<le> 222 \<and> n \<noteq> 215)
      then char_of (n + 32) else c)"

definition lower :: "string \<Rightarrow> string" where
  "lower s = map lower_char s"

text \<open>
  \<^verbatim>\<open>str.upper\<close>: the sharp s (223) becomes \<^verbatim>\<open>SS\<close>. The upper-case images of the code
  points 181 and 255 lie beyond 255 and are left as they are here; the engine only compares
  the upper-cased response with \<^verbatim>\<open>YES\<close>, which neither image can be part of.
\<close>

definition upper_char :: "char \<Rightarrow> string" where
  "upper_char c =
     (let n = (of_char c :: nat) in
      if (97 \<le> n \<and> n \<le> 122) \<or> (224 \<le> n \<and> n \<le> 254 \<and> n \<noteq> 247)
      then [char_of (n - 32)]
      else if n = 223 then ''SS'' else [c])"

definition upper :: "string \<Rightarrow> string" where
  "upper s = concat (map upper_char s)"

definition is_space :: "char \<Rightarrow> bool" where
  "is_space c =
     (let n = (of_char c :: nat) in
      (9 \<le> n \<and> n \<le> 13) \<or> (28 \<le> n \<and> n \<le> 32) \<or> n = 133 \<or> n = 160)"

definition py_strip :: "string \<Rightarrow> string" where
  "py_strip s = rev (dropWhile is_space (rev (dropWhile is_space s)))"

text \<open>\<^verbatim>\<open>s.split()\<close>: the maximal runs of non-whitespace; \<open>w\<close> is the current run, reversed.\<close>

fun split_acc :: "string \<Rightarrow> string \<Rightarrow> string list" where
  "split_acc [] w = (if w = [] then [] else [rev w])"
| "split_acc (c # s) w =
     (if is_space c then (if w = [] then split_acc s [] else rev w # split_acc s [])
      else split_acc s (c # w))"

definition py_split :: "string \<Rightarrow> string list" where
  "py_split s = split_acc s []"

text \<open>\<^verbatim>\<open>sub in s\<close>: \<open>sub\<close> occurs in \<open>s\<close> as a contiguous piece.\<close>

definition py_in :: "string \<Rightarrow> string \<Rightarrow> bool" where
  "py_in sub s = sublist sub s"

text \<open>\<^verbatim>\<open>s.find(sub)\<close> and \<^verbatim>\<open>s.rfind(sub)\<close>: the first and the last index, or -1.\<close>

fun py_find :: "string \<Rightarrow> string \<Rightarrow> int" where
  "py_find [] sub = (if sub = [] then 0 else - 1)"
| "py_find (c # s) sub =
     (if prefix sub (c # s) then 0
      else (let r = py_find s sub in if r < 0 then - 1 else r + 1))"

fun py_rfind :: "string \<Rightarrow> string \<Rightarrow> int" where
  "py_rfind [] sub = (if sub = [] then 0 else - 1)"
| "py_rfind (c # s) sub =
     (let r = py_rfind s sub in
      if 0 \<le> r then r + 1 else if prefix sub (c # s) then 0 else - 1)"

text \<open>\<^verbatim>\<open>s[a:b]\<close>: a negative index counts from the end, and both are clamped to the string.\<close>

definition clamp_index :: "nat \<Rightarrow> int \<Rightarrow> nat" where
  "clamp_index n i = (if i < 0 then nat (max 0 (int n + i)) else min n (nat i))"

definition py_slice :: "string \<Rightarrow> int \<Rightarrow> int \<Rightarrow> string" where
  "py_slice s a b =
     (let lo = clamp_index (length s) a; hi = clamp_index (length s) b
      in take (hi - lo) (drop lo s))"

text \<open>\<^verbatim>\<open>e.replace("_", " ")\<close> and \<^verbatim>\<open>sep.join(xs)\<close>.\<close>

definition replace_underscore :: "string \<Rightarrow> string" where
  "replace_underscore e = map (\<lambda>c. if c = CHR ''_'' then CHR '' '' else c) e"

fun py_join :: "string \<Rightarrow> string list \<Rightarrow> string" where
  "py_join sep [] = []"
| "py_join sep [x] = x"
| "py_join sep (x # y # xs) = x @ sep @ py_join sep (y # xs)"

text \<open>\<^verbatim>\<open>str(i)\<close> of an integer, as an f-string prints it.\<close>

fun digits :: "nat \<Rightarrow> string" where
  "digits n =
     (if n < 10 then [char_of (48 + n)]
      else digits (n div 10) @ [char_of (48 + n mod 10)])"

definition py_str_int :: "int \<Rightarrow> string" where
  "py_str_int i = (if i < 0 then CHR ''-'' # digits (nat (- i)) else digits (nat i))"

section \<open>Python floats\<close>

text \<open>
  The scores are computed in double precision: \<^verbatim>\<open>int((k / n) * 100)\<close>, and the relevance
  gate compares \<^verbatim>\<open>k / n\<close> with the literal \<^verbatim>\<open>0.3\<close>. A finite non-negative double is
  kept as a fraction of integers. \<open>fl a b\<close> is the double nearest to \<open>a / b\<close> (ties to
  even, 53 bits): Python's true division of integers, its literals and its float product
  are all correctly rounded. The values met here lie between \<open>2^-1000\<close> and \<open>2^1000\<close>
  unless a question has more than \<open>2^900\<close> words, so neither overflow nor subnormal
  numbers arise.

  \<open>scale_up\<close> doubles the numerator until the quotient reaches \<open>2^52 = 4503599627370496\<close>;
  \<open>scale_down\<close> doubles the denominator until the quotient is below
  \<open>2^53 = 9007199254740992\<close>; the exponent records the doublings.
\<close>

function scale_up :: "int \<Rightarrow> int \<Rightarrow> int \<Rightarrow> int \<times> int" where
  "scale_up a b e =
     (if 0 < a \<and> a < 4503599627370496 * b then scale_up (2 * a) b (e - 1) else (a, e))"
  by pat_completeness auto
termination
  by (relation "measure (\<lambda>(a, b, e). nat (4503599627370496 * b - a))") auto

function scale_down :: "int \<Rightarrow> int \<Rightarrow> int \<Rightarrow> int \<times> int" where
  "scale_down a b e =
     (if 0 < b \<and> 9007199254740992 * b \<le> a then scale_down a (2 * b) (e + 1) else (b, e))"
  by pat_completeness auto
termination
  by (relation "measure (\<lambda>(a, b, e). nat (1 + a - 9007199254740992 * b))") auto

definition round_half_even :: "int \<Rightarrow> int \<Rightarrow> int" where
  "round_half_even a b =
     (let q = a div b; r = a mod b in
      if 2 * r < b then q else if b < 2 * r then q + 1 else if even q then q else q + 1)"

definition fl :: "int \<Rightarrow> int \<Rightarrow> int \<times> int" where
  "fl a b =
     (if a = 0 then (0, 1)
      else (let (a1, e1) = scale_up a b 0;
                (b1, e2) = scale_down a1 b e1;
                m = round_half_even a1 b1
            in if 0 \<le> e2 then (m * 2 ^ nat e2, 1) else (m, 2 ^ nat (- e2))))"

text \<open>\<^verbatim>\<open>int((k / n) * 100)\<close> for \<open>n > 0\<close>: divide, multiply by 100.0, truncate.\<close>

definition py_pct :: "nat \<Rightarrow> nat \<Rightarrow> int" where
  "py_pct k n = (let (a, b) = fl (int k) (int n); (c, d) = fl (100 * a) b in c div d)"

text \<open>\<^verbatim>\<open>(k / n) > 0.3\<close> for \<open>n > 0\<close>: both sides as doubles, compared exactly.\<close>

definition py_ratio_gt_03 :: "nat \<Rightarrow> nat \<Rightarrow> bool" where
  "py_ratio_gt_03 k n = (let (a, b) = fl (int k) (int n); (c, d) = fl 3 10 in c * b < a * d)"

section \<open>Verdicts\<close>

text \<open>
  The engine returns either a plain string or a dictionary with a \<^verbatim>\<open>status\<close> key: a
  document verdict, a report, or an error object.
\<close>

record status_obj =
  status :: string

record verdict = status_obj +
  analysis :: string
  missing_elements :: "string list"
  recommendations :: "string list"
  compliance_score :: int

record report_obj = status_obj +
  report :: string
  generated_at :: string

record error_obj = status_obj +
  message :: string

datatype response =
    Text string
  | Verdict verdict
  | Report report_obj
  | Error error_obj

section \<open>Document types\<close>

definition determine_expected_document_type :: "string \<Rightarrow> string" where
  "determine_expected_document_type question =
     (let question_lower = lower question in
      if py_in ''consent'' question_lower \<or> py_in ''informed consent'' question_lower
        then ''Consent Form''
      else if py_in ''protocol'' question_lower \<or> py_in ''research protocol'' question_lower
        then ''Research Protocol''
      else if py_in ''ethics committee application'' question_lower
              \<or> py_in ''ethics application'' question_lower
              \<or> py_in ''application form'' question_lower
        then ''Ethics Committee Application Form''
      else if py_in ''cv'' question_lower \<or> py_in ''resume'' question_lower
              \<or> py_in ''curriculum vitae'' question_lower
        then ''CV/Resume''
      else if py_in ''survey'' question_lower \<or> py_in ''questionnaire'' question_lower
        then ''Survey/Questionnaire''
      else if py_in ''study protocol'' question_lower
        then ''Study Protocol''
      else ''Supporting Document'')"

definition determine_actual_document_type :: "string \<Rightarrow> string \<Rightarrow> string" where
  "determine_actual_document_type doc_name doc_content =
     (let doc_name_lower = lower doc_name; doc_content_lower = lower doc_content in
      if py_in ''consent'' doc_name_lower then ''Consent Form''
      else if py_in ''protocol'' doc_name_lower then ''Research Protocol''
      else if py_in ''ethics'' doc_name_lower
              \<and> (py_in ''application'' doc_name_lower \<or> py_in ''committee'' doc_name_lower)
        then ''Ethics Committee Application Form''
      else if py_in ''cv'' doc_name_lower \<or> py_in ''resume'' doc_name_lower
              \<or> py_in ''curriculum'' doc_name_lower
        then ''CV/Resume''
      else if py_in ''survey'' doc_name_lower \<or> py_in ''questionnaire'' doc_name_lower
        then ''Survey/Questionnaire''
      else if py_in ''consent'' doc_content_lower
              \<and> (py_in ''voluntary'' doc_content_lower \<or> py_in ''withdraw'' doc_content_lower)
        then ''Consent Form''
      else if py_in ''protocol'' doc_content_lower
              \<and> (py_in ''methodology'' doc_content_lower \<or> py_in ''procedure'' doc_content_lower)
        then ''Research Protocol''
      else if py_in ''ethics committee'' doc_content_lower
              \<and> py_in ''application'' doc_content_lower
        then ''Ethics Committee Application Form''
      else if (py_in ''education'' doc_content_lower \<or> py_in ''experience'' doc_content_lower)
              \<and> (py_in ''skills'' doc_content_lower \<or> py_in ''qualification'' doc_content_lower)
        then ''CV/Resume''
      else if py_in ''question'' doc_content_lower
              \<and> (py_in ''answer'' doc_content_lower \<or> py_in ''response'' doc_content_lower)
        then ''Survey/Questionnaire''
      else ''Supporting Document'')"

section \<open>The relevance gate\<close>

definition relevance_stop_words :: "string list" where
  "relevance_stop_words =
     [''what'', ''when'', ''where'', ''which'', ''how'', ''does'', ''will'', ''your'', ''this'',
      ''that'', ''these'', ''those'', ''have'', ''from'', ''with'', ''about'']"

text \<open>
  The comprehension \<^verbatim>\<open>[word for word in question.lower().split() if len(word) > 3 and word
  not in stop]\<close> and the count \<^verbatim>\<open>sum(1 for keyword in ... if keyword in
  doc_content.lower())\<close>, shared by the gate and the generic scorer (with their own stop
  lists).
\<close>

definition question_keywords :: "string list \<Rightarrow> string \<Rightarrow> string list" where
  "question_keywords stop question =
     filter (\<lambda>word. 3 < length word \<and> \<not> List.member stop word) (py_split (lower question))"

definition keyword_matches :: "string list \<Rightarrow> string \<Rightarrow> nat" where
  "keyword_matches keywords doc_content =
     length (filter (\<lambda>keyword. py_in keyword (lower doc_content)) keywords)"

definition is_document_relevant :: "string \<Rightarrow> string \<Rightarrow> string \<Rightarrow> string \<Rightarrow> bool" where
  "is_document_relevant expected_type actual_type doc_content question =
     (if expected_type = actual_type then True
      else (let keywords = question_keywords relevance_stop_words question in
            if keywords = [] then False
            else py_ratio_gt_03 (keyword_matches keywords doc_content) (length keywords)))"

section \<open>The typed scorers\<close>

text \<open>
  Each typed scorer holds a dictionary \<^verbatim>\<open>key_elements\<close> from a category to its keywords
  (an association list, in the dictionary's insertion order) and runs the same loop: a
  category is present when \<^verbatim>\<open>any(keyword in doc_content.lower() for keyword in
  keywords)\<close>, and goes to \<^verbatim>\<open>present_elements\<close> or to \<^verbatim>\<open>missing_elements\<close>.
\<close>

type_synonym key_elements = "(string \<times> string list) list"

definition element_present :: "string \<Rightarrow> string list \<Rightarrow> bool" where
  "element_present doc_content keywords =
     list_ex (\<lambda>keyword. py_in keyword (lower doc_content)) keywords"

definition present_of :: "key_elements \<Rightarrow> string \<Rightarrow> string list" where
  "present_of key_elements doc_content =
     map fst (filter (\<lambda>(element, keywords). element_present doc_content keywords) key_elements)"

definition missing_of :: "key_elements \<Rightarrow> string \<Rightarrow> string list" where
  "missing_of key_elements doc_content =
     map fst (filter (\<lambda>(element, keywords). \<not> element_present doc_content keywords) key_elements)"

text \<open>The status of a typed scorer: \<^verbatim>\<open>>= 90\<close>, \<^verbatim>\<open>>= 70\<close>, else.\<close>

definition typed_status :: "int \<Rightarrow> string" where
  "typed_status score =
     (if 90 \<le> score then ''APPROVED''
      else if 70 \<le> score then ''ANALYZING''
      else ''NEEDS_REVISION'')"

text \<open>\<^verbatim>\<open>", ".join([e.replace("_", " ") for e in elements])\<close>\<close>

definition listing :: "string list \<Rightarrow> string" where
  "listing elements = py_join '', '' (map replace_underscore elements)"

definition consent_key_elements :: key_elements where
  "consent_key_elements =
     [(''research_purpose'', [''purpose'', ''aim'', ''objective'', ''goal'']),
      (''procedures'', [''procedure'', ''what you will do'', ''what you'll do'', ''activities'', ''tasks'']),
      (''risks'', [''risk'', ''discomfort'', ''inconvenience'', ''harm'']),
      (''benefits'', [''benefit'', ''advantage'', ''gain'']),
      (''confidentiality'', [''confidential'', ''privacy'', ''private'', ''anonymity'', ''anonymous'']),
      (''voluntary'', [''voluntary'', ''choice'', ''choose'', ''option'', ''decide'']),
      (''withdrawal'', [''withdraw'', ''stop'', ''quit'', ''leave'', ''discontinue'']),
      (''contact'', [''contact'', ''question'', ''concern'', ''information'', ''email'', ''phone''])]"

definition analyze_consent_form :: "string \<Rightarrow> verdict" where
  "analyze_consent_form doc_content =
     (let present = present_of consent_key_elements doc_content;
          missing = missing_of consent_key_elements doc_content;
          score = py_pct (length present) (length consent_key_elements)
      in \<lparr> status = typed_status score,
           analysis =
             ''This consent form '' @ (if 70 \<le> score then ''adequately'' else ''inadequately'')
             @ '' addresses the ethical requirements for informed consent. ''
             @ (if present \<noteq> []
                then ''The form includes information about '' @ listing present @ ''. '' else [])
             @ (if missing \<noteq> []
                then ''However, it is missing information about '' @ listing missing @ ''. ''
                else [])
             @ ''Overall, the document '' @ (if 70 \<le> score then ''meets'' else ''does not meet'')
             @ '' the basic requirements for an informed consent form.'',
           missing_elements = map replace_underscore missing,
           recommendations =
             map (\<lambda>element. ''Add information about '' @ replace_underscore element) missing,
           compliance_score = score \<rparr>)"

definition protocol_key_elements :: key_elements where
  "protocol_key_elements =
     [(''background'', [''background'', ''introduction'', ''literature'', ''review'']),
      (''objectives'', [''objective'', ''aim'', ''goal'', ''purpose'']),
      (''methodology'', [''method'', ''approach'', ''design'', ''procedure'']),
      (''participants'', [''participant'', ''subject'', ''sample'', ''recruitment'']),
      (''data_collection'', [''data collection'', ''gather'', ''collect'', ''measure'']),
      (''data_analysis'', [''data analysis'', ''analyze'', ''statistical'', ''qualitative'']),
      (''ethical_considerations'', [''ethic'', ''consent'', ''confidential'', ''privacy'']),
      (''timeline'', [''timeline'', ''schedule'', ''duration'', ''period''])]"

definition analyze_research_protocol :: "string \<Rightarrow> verdict" where
  "analyze_research_protocol doc_content =
     (let present = present_of protocol_key_elements doc_content;
          missing = missing_of protocol_key_elements doc_content;
          score = py_pct (length present) (length protocol_key_elements)
      in \<lparr> status = typed_status score,
           analysis =
             ''This research protocol '' @ (if 70 \<le> score then ''adequately'' else ''inadequately'')
             @ '' addresses the key components required. ''
             @ (if present \<noteq> []
                then ''The protocol includes information about '' @ listing present @ ''. ''
                else [])
             @ (if missing \<noteq> []
                then ''However, it is missing information about '' @ listing missing @ ''. ''
                else [])
             @ ''Overall, the document '' @ (if 70 \<le> score then ''meets'' else ''does not meet'')
             @ '' the basic requirements for a research protocol.'',
           missing_elements = map replace_underscore missing,
           recommendations =
             map (\<lambda>element. ''Add a section on '' @ replace_underscore element) missing,
           compliance_score = score \<rparr>)"

definition application_key_elements :: key_elements where
  "application_key_elements =
     [(''researcher_info'', [''researcher'', ''investigator'', ''applicant'', ''principal'']),
      (''project_details'', [''project'', ''title'', ''summary'', ''overview'']),
      (''methodology'', [''method'', ''approach'', ''design'', ''procedure'']),
      (''participants'', [''participant'', ''subject'', ''sample'', ''recruitment'']),
      (''ethical_considerations'', [''ethic'', ''consideration'', ''issue'', ''concern'']),
      (''risk_assessment'', [''risk'', ''harm'', ''mitigation'', ''minimize'']),
      (''data_management'', [''data'', ''storage'', ''security'', ''confidentiality'']),
      (''consent_procedures'', [''consent'', ''inform'', ''voluntary'', ''withdraw'']),
      (''declarations'', [''declare'', ''confirm'', ''certify'', ''statement''])]"

definition analyze_ethics_application_form :: "string \<Rightarrow> verdict" where
  "analyze_ethics_application_form doc_content =
     (let present = present_of application_key_elements doc_content;
          missing = missing_of application_key_elements doc_content;
          score = py_pct (length present) (length application_key_elements)
      in \<lparr> status = typed_status score,
           analysis =
             ''This ethics committee application form ''
             @ (if 70 \<le> score then ''adequately'' else ''inadequately'')
             @ '' addresses the required information. ''
             @ (if present \<noteq> []
                then ''The form includes information about '' @ listing present @ ''. '' else [])
             @ (if missing \<noteq> []
                then ''However, it is missing information about '' @ listing missing @ ''. ''
                else [])
             @ ''Overall, the document '' @ (if 70 \<le> score then ''meets'' else ''does not meet'')
             @ '' the basic requirements for an ethics committee application form.'',
           missing_elements = map replace_underscore missing,
           recommendations =
             map (\<lambda>element. ''Complete the '' @ replace_underscore element @ '' section'') missing,
           compliance_score = score \<rparr>)"

definition cv_key_elements :: key_elements where
  "cv_key_elements =
     [(''education'', [''education'', ''degree'', ''university'', ''college'', ''school'']),
      (''experience'', [''experience'', ''work'', ''job'', ''position'', ''role'']),
      (''skills'', [''skill'', ''competence'', ''ability'', ''proficiency'']),
      (''research'', [''research'', ''study'', ''investigation'', ''project'']),
      (''publications'', [''publication'', ''paper'', ''article'', ''journal'']),
      (''ethics_training'', [''ethics'', ''IRB'', ''ethical'', ''compliance''])]"

text \<open>
  The CV and survey scorers build their recommendations from a chain of
  \<^verbatim>\<open>if "name" in missing_elements: recommendations.append(...)\<close>.
\<close>

definition recommend_if :: "string list \<Rightarrow> (string \<times> string) list \<Rightarrow> string list" where
  "recommend_if missing table = map snd (filter (\<lambda>(element, text). List.member missing element) table)"

definition analyze_cv :: "string \<Rightarrow> verdict" where
  "analyze_cv doc_content =
     (let present = present_of cv_key_elements doc_content;
          missing = missing_of cv_key_elements doc_content;
          score = py_pct (length present) (length cv_key_elements)
      in \<lparr> status = typed_status score,
           analysis =
             ''This CV/Resume '' @ (if 70 \<le> score then ''adequately'' else ''inadequately'')
             @ '' demonstrates the researcher's qualifications. ''
             @ (if present \<noteq> []
                then ''The document includes information about '' @ listing present @ ''. ''
                else [])
             @ (if missing \<noteq> []
                then ''However, it is missing information about '' @ listing missing @ ''. ''
                else [])
             @ ''Overall, the document ''
             @ (if 70 \<le> score then ''demonstrates'' else ''does not adequately demonstrate'')
             @ '' the researcher's qualifications for this study.'',
           missing_elements = map replace_underscore missing,
           recommendations =
             recommend_if missing
               [(''education'', ''Add educational qualifications relevant to the research''),
                (''experience'', ''Include relevant research or professional experience''),
                (''skills'', ''Add skills relevant to conducting this research''),
                (''research'', ''Include previous research experience''),
                (''publications'', ''Add relevant publications if applicable''),
                (''ethics_training'', ''Include information about ethics training or certifications'')],
           compliance_score = score \<rparr>)"

definition survey_key_elements :: key_elements where
  "survey_key_elements =
     [(''introduction'', [''introduction'', ''purpose'', ''about'', ''overview'']),
      (''instructions'', [''instruction'', ''direction'', ''guide'', ''how to'']),
      (''questions'', [''question'', ''ask'', ''respond'', ''answer'']),
      (''response_options'', [''option'', ''choice'', ''select'', ''scale'']),
      (''sensitive_questions'', [''sensitive'', ''personal'', ''private'', ''confidential'']),
      (''data_usage'', [''data'', ''information'', ''use'', ''purpose'']),
      (''contact'', [''contact'', ''question'', ''concern'', ''information''])]"

definition analyze_survey :: "string \<Rightarrow> verdict" where
  "analyze_survey doc_content =
     (let present = present_of survey_key_elements doc_content;
          missing = missing_of survey_key_elements doc_content;
          score = py_pct (length present) (length survey_key_elements)
      in \<lparr> status = typed_status score,
           analysis =
             ''This survey/questionnaire '' @ (if 70 \<le> score then ''adequately'' else ''inadequately'')
             @ '' addresses the key components required. ''
             @ (if present \<noteq> []
                then ''The document includes '' @ listing present @ ''. '' else [])
             @ (if missing \<noteq> []
                then ''However, it is missing '' @ listing missing @ ''. '' else [])
             @ ''Overall, the document '' @ (if 70 \<le> score then ''meets'' else ''does not meet'')
             @ '' the basic requirements for a research survey/questionnaire.'',
           missing_elements = map replace_underscore missing,
           recommendations =
             recommend_if missing
               [(''introduction'', ''Add an introduction explaining the purpose of the survey''),
                (''instructions'', ''Include clear instructions for completing the survey''),
                (''questions'', ''Ensure questions are clearly formulated''),
                (''response_options'', ''Provide clear response options for each question''),
                (''sensitive_questions'',
                 ''Consider whether any questions are sensitive and provide appropriate warnings''),
                (''data_usage'', ''Include information about how the data will be used''),
                (''contact'', ''Add contact information for questions or concerns'')],
           compliance_score = score \<rparr>)"

section \<open>The generic scorer\<close>

definition generic_stop_words :: "string list" where
  "generic_stop_words = relevance_stop_words @ [''research'']"

definition generic_status :: "int \<Rightarrow> string" where
  "generic_status relevance_score =
     (if 80 \<le> relevance_score then ''APPROVED''
      else if 60 \<le> relevance_score then ''ANALYZING''
      else ''NEEDS_REVISION'')"

definition analyze_generic_document :: "string \<Rightarrow> string \<Rightarrow> string \<Rightarrow> verdict" where
  "analyze_generic_document doc_content question doc_type =
     (let keywords = question_keywords generic_stop_words question;
          relevance_score =
            (if keywords \<noteq> []
             then py_pct (keyword_matches keywords doc_content) (length keywords) else 50)
      in \<lparr> status = generic_status relevance_score,
           analysis =
             ''This '' @ doc_type @ '' ''
             @ (if 60 \<le> relevance_score then ''adequately'' else ''inadequately'')
             @ '' addresses the question: '' @ [CHR 0x27] @ question @ [CHR 0x27] @ ''. ''
             @ (if 80 \<le> relevance_score
                then ''The document provides comprehensive information relevant to the question. ''
                else if 60 \<le> relevance_score
                then ''The document provides some information relevant to the question, but could be more specific. ''
                else ''The document does not appear to directly address the question. '')
             @ ''Overall, the document '' @ (if 60 \<le> relevance_score then ''is'' else ''is not'')
             @ '' sufficient to address the ethical considerations raised in the question.'',
           missing_elements =
             (if relevance_score < 60 then [''Specific addressing of the question''] else []),
           recommendations =
             (if relevance_score < 80
              then [''Ensure the document directly addresses the question: '' @ [CHR 0x27]
                    @ question @ [CHR 0x27]]
              else [])
             @ (if length doc_content < 500
                then [''Provide more detailed information in the document''] else [])
             @ (if \<not> py_in ''ethics'' (lower doc_content) \<and> \<not> py_in ''ethical'' (lower doc_content)
                then [''Include explicit discussion of ethical considerations''] else []),
           compliance_score = relevance_score \<rparr>)"

section \<open>The document review\<close>

text \<open>The fixed verdict of a document that the gate judges not relevant.\<close>

definition irrelevant_verdict :: "string \<Rightarrow> string \<Rightarrow> verdict" where
  "irrelevant_verdict expected_doc_type actual_doc_type =
     \<lparr> status = ''NEEDS_REVISION'',
       analysis =
         ''The uploaded document does not appear to be the required '' @ expected_doc_type
         @ '' for this question. The document appears to be a '' @ actual_doc_type
         @ '', which does not address the requirements of this question.'',
       missing_elements = [''Appropriate document type'', ''Content relevant to the question''],
       recommendations =
         [''Upload a '' @ expected_doc_type @ '' that specifically addresses this question'',
          ''Ensure the document contains all required elements''],
       compliance_score = 20 \<rparr>"

text \<open>The dispatch on the actual type, for a relevant document.\<close>

definition score_document :: "string \<Rightarrow> string \<Rightarrow> string \<Rightarrow> verdict" where
  "score_document actual_doc_type doc_content question =
     (if actual_doc_type = ''Consent Form'' then analyze_consent_form doc_content
      else if actual_doc_type = ''Research Protocol'' \<or> actual_doc_type = ''Study Protocol''
        then analyze_research_protocol doc_content
      else if actual_doc_type = ''Ethics Committee Application Form''
        then analyze_ethics_application_form doc_content
      else if actual_doc_type = ''CV/Resume'' then analyze_cv doc_content
      else if actual_doc_type = ''Survey/Questionnaire'' then analyze_survey doc_content
      else analyze_generic_document doc_content question actual_doc_type)"

definition generate_document_review :: "string \<Rightarrow> string \<Rightarrow> string \<Rightarrow> verdict" where
  "generate_document_review doc_content question doc_name =
     (let expected_doc_type = determine_expected_document_type question;
          actual_doc_type = determine_actual_document_type doc_name doc_content;
          is_relevant = is_document_relevant expected_doc_type actual_doc_type doc_content question
      in if \<not> is_relevant then irrelevant_verdict expected_doc_type actual_doc_type
         else score_document actual_doc_type doc_content question)"

section \<open>The narrators\<close>

text \<open>
  The context analysis returns one fixed text, whatever the message. The texts are the
  source's string literals, line by line.
\<close>

definition research_context_analysis_text :: string where
  \<open>research_context_analysis_text =
     ''\<newline>''
     @ ''    # Ethics Analysis\<newline>''
     @ ''\<newline>''
     @ ''    ## Ethical Considerations\<newline>''
     @ ''    Based on the research context provided, there are several ethical considerations to address:\<newline>''
     @ ''\<newline>''
     @ ''    1. **Participant Privacy**: Ensure all participant data is anonymized and securely stored.\<newline>''
     @ ''    2. **Informed Consent**: Clearly communicate the research purpose and how data will be used.\<newline>''
     @ ''    3. **Vulnerable Populations**: Take extra precautions if working with vulnerable groups.\<newline>''
     @ ''\<newline>''
     @ ''    ## Potential Risks\<newline>''
     @ ''    1. **Data Breach**: Unauthorized access to participant information\<newline>''
     @ ''    2. **Psychological Impact**: Potential distress from sensitive questions\<newline>''
     @ ''    3. **Confidentiality Concerns**: Maintaining anonymity in published results\<newline>''
     @ ''\<newline>''
     @ ''    ## Recommended Safeguards\<newline>''
     @ ''    1. Implement robust data security measures\<newline>''
     @ ''    2. Establish clear withdrawal procedures for participants\<newline>''
     @ ''    3. Create a detailed data management plan\<newline>''
     @ ''    4. Provide support resources for participants if needed\<newline>''
     @ ''\<newline>''
     @ ''    ## Compliance Requirements\<newline>''
     @ ''    1. Obtain IRB/Ethics Committee approval before beginning\<newline>''
     @ ''    2. Follow GDPR/local data protection regulations\<newline>''
     @ ''    3. Maintain documentation of consent procedures\<newline>''
     @ ''    4. Regular ethics reviews throughout the research process\<newline>''
     @ ''        ''\<close>

definition generate_research_context_analysis :: "string \<Rightarrow> string" where
  "generate_research_context_analysis msg = research_context_analysis_text"

definition human_participants_yes_text :: string where
  \<open>human_participants_yes_text =
     ''\<newline>''
     @ ''    ## Feedback on Human Participants Question\<newline>''
     @ ''\<newline>''
     @ ''    Your 'YES' response indicates that your research involves human participants, which triggers important ethical considerations.\<newline>''
     @ ''\<newline>''
     @ ''    ### Key Ethical Requirements:\<newline>''
     @ ''    1. You must obtain informed consent from all participants\<newline>''
     @ ''    2. You need to ensure participant privacy and data confidentiality\<newline>''
     @ ''    3. Risk assessment and mitigation strategies must be in place\<newline>''
     @ ''    4. Vulnerable populations require additional protections\<newline>''
     @ ''\<newline>''
     @ ''    ### Documentation Needed:\<newline>''
     @ ''    - Participant information sheets\<newline>''
     @ ''    - Consent forms\<newline>''
     @ ''    - Recruitment materials\<newline>''
     @ ''    - Data management plan\<newline>''
     @ ''\<newline>''
     @ ''    Please ensure you have addressed all these aspects in your supporting documentation.\<newline>''
     @ ''                ''\<close>

definition human_participants_other_text :: string where
  \<open>human_participants_other_text =
     ''\<newline>''
     @ ''    ## Feedback on Human Participants Question\<newline>''
     @ ''\<newline>''
     @ ''    Your response indicates your research does not involve human participants. If this is accurate, many standard ethical requirements for human subjects research won't apply.\<newline>''
     @ ''\<newline>''
     @ ''    However, please double-check that your research truly doesn't involve:\<newline>''
     @ ''    - Collection of human data (including from existing datasets)\<newline>''
     @ ''    - Observation of human behavior\<newline>''
     @ ''    - Use of human tissue samples\<newline>''
     @ ''    - Surveys, interviews, or focus groups\<newline>''
     @ ''\<newline>''
     @ ''    If any of these elements are present, you should reconsider your answer as your research may actually involve human participants indirectly.\<newline>''
     @ ''                ''\<close>

definition personal_data_yes_text :: string where
  \<open>personal_data_yes_text =
     ''\<newline>''
     @ ''    ## Feedback on Personal Data Collection\<newline>''
     @ ''\<newline>''
     @ ''    Your 'YES' response indicates you will be collecting personal data, which has significant ethical and legal implications.\<newline>''
     @ ''\<newline>''
     @ ''    ### Important Considerations:\<newline>''
     @ ''    1. You must comply with relevant data protection regulations (e.g., GDPR)\<newline>''
     @ ''    2. Data minimization principles should be applied\<newline>''
     @ ''    3. Secure storage and transfer protocols are required\<newline>''
     @ ''    4. Data retention periods must be defined and justified\<newline>''
     @ ''    5. Participant rights regarding their data must be clearly communicated\<newline>''
     @ ''\<newline>''
     @ ''    ### Documentation Required:\<newline>''
     @ ''    - Data management plan\<newline>''
     @ ''    - Privacy notice for participants\<newline>''
     @ ''    - Data security protocols\<newline>''
     @ ''    - Data retention and destruction schedule\<newline>''
     @ ''\<newline>''
     @ ''    Ensure your documentation thoroughly addresses how you'll protect participant data throughout its lifecycle.\<newline>''
     @ ''                ''\<close>

definition personal_data_other_text :: string where
  \<open>personal_data_other_text =
     ''\<newline>''
     @ ''    ## Feedback on Personal Data Collection\<newline>''
     @ ''\<newline>''
     @ ''    Your response indicates you won't be collecting personal data. This simplifies some ethical requirements, but please verify that you truly won't collect any information that could identify individuals.\<newline>''
     @ ''\<newline>''
     @ ''    Remember that personal data includes:\<newline>''
     @ ''    - Names, addresses, email addresses\<newline>''
     @ ''    - ID numbers or online identifiers\<newline>''
     @ ''    - Location data\<newline>''
     @ ''    - Physical, physiological, genetic, or biometric data\<newline>''
     @ ''    - Factors specific to a person's identity\<newline>''
     @ ''\<newline>''
     @ ''    Even if you're collecting anonymized data, the process of collection might temporarily involve personal information, so consider whether any stage of your research involves personal data.\<newline>''
     @ ''                ''\<close>

definition generic_feedback_part1 :: string where
  \<open>generic_feedback_part1 =
     ''\<newline>''
     @ ''## Feedback on Your Response\<newline>''
     @ ''\<newline>''
     @ ''Regarding the question: "''\<close>

definition generic_feedback_part2 :: string where
  \<open>generic_feedback_part2 =
     ''"\<newline>''
     @ ''\<newline>''
     @ ''Your answer of "''\<close>

definition generic_feedback_part3 :: string where
  \<open>generic_feedback_part3 =
     ''" has important ethical implications that should be carefully considered.\<newline>''
     @ ''\<newline>''
     @ ''### Assessment:\<newline>''
     @ ''The response you've provided requires you to think about how this aspect of your research aligns with ethical principles including respect for persons, beneficence, and justice.\<newline>''
     @ ''\<newline>''
     @ ''### Considerations:\<newline>''
     @ ''- How does this element of your research impact participant autonomy?\<newline>''
     @ ''- What measures are in place to ensure fair treatment of all stakeholders?\<newline>''
     @ ''- Have you considered both direct and indirect consequences of this aspect?\<newline>''
     @ ''\<newline>''
     @ ''### Recommendations:\<newline>''
     @ ''1. Document your reasoning for this decision in your research protocol\<newline>''
     @ ''2. Consider alternative approaches that might further minimize ethical concerns\<newline>''
     @ ''3. Consult relevant guidelines specific to this aspect of research ethics\<newline>''
     @ ''4. Be prepared to justify this position to the ethics committee\<newline>''
     @ ''\<newline>''
     @ ''Remember that ethical research requires ongoing reflection and adjustment throughout the research process.\<newline>''
     @ ''            ''\<close>

text \<open>
  The question feedback returns a text, except for a question that mentions both
  \<^verbatim>\<open>vulnerable\<close> and \<^verbatim>\<open>document\<close>, where it returns a fixed verdict.
\<close>

definition vulnerable_document_verdict :: verdict where
  "vulnerable_document_verdict =
     \<lparr> status = ''ANALYZING'',
       analysis = ''This research protocol outlines the methodology, participant recruitment, data collection procedures, and ethical considerations for the study.'',
       missing_elements = [''Detailed risk mitigation strategies''],
       recommendations =
         [''Add more specific information about how risks will be mitigated'',
          ''Include a data management plan''],
       compliance_score = 80 \<rparr>"

definition generate_question_feedback :: "string \<Rightarrow> string \<Rightarrow> response" where
  "generate_question_feedback question resp =
     (let response_upper = py_strip (upper resp) in
      if py_in ''human participants'' (lower question) then
        (if response_upper = ''YES'' then Text human_participants_yes_text
         else Text human_participants_other_text)
      else if py_in ''personal data'' (lower question) then
        (if response_upper = ''YES'' then Text personal_data_yes_text
         else Text personal_data_other_text)
      else if py_in ''vulnerable'' (lower question) \<and> py_in ''document'' (lower question) then
        Verdict vulnerable_document_verdict
      else
        Text (generic_feedback_part1 @ question @ generic_feedback_part2 @ resp
              @ generic_feedback_part3))"

section \<open>The report composer\<close>

text \<open>
  \<^verbatim>\<open>reviews\<close> is the dictionary that \<^verbatim>\<open>json.loads\<close> returns for a JSON object, or
  the empty dictionary. A dictionary is the list of its items in insertion order, with
  distinct keys. Its values are arbitrary JSON values: \<^verbatim>\<open>None\<close>, a boolean, an
  integer, a float, a string, a list or a dictionary. The composer only prints a float and
  tests its truth, so a float is kept as the text that \<^verbatim>\<open>str\<close> prints for it;
  \<^verbatim>\<open>0.0\<close> and \<^verbatim>\<open>-0.0\<close> are the floats that count as false.
\<close>

datatype json =
    JNull
  | JBool bool
  | JInt int
  | JFloat string
  | JStr string
  | JList "json list"
  | JDict "(string \<times> json) list"

type_synonym reviews = "(string \<times> json) list"

text \<open>
  \<^verbatim>\<open>repr\<close> of a string: single quotes, or double quotes when the string holds a single
  quote and no double quote; the quote in use and the backslash (code 92) are escaped with
  a backslash, tab, newline and carriage return by their letters, and every other code
  point that is not printable as \<^verbatim>\<open>\xNN\<close>.
\<close>

definition hex_digit :: "nat \<Rightarrow> char" where
  "hex_digit n = (if n < 10 then char_of (48 + n) else char_of (87 + n))"

definition repr_char :: "char \<Rightarrow> char \<Rightarrow> string" where
  "repr_char quote c =
     (let n = (of_char c :: nat) in
      if c = quote \<or> c = CHR 0x5C then [CHR 0x5C, c]
      else if n = 9 then [CHR 0x5C, CHR ''t'']
      else if n = 10 then [CHR 0x5C, CHR ''n'']
      else if n = 13 then [CHR 0x5C, CHR ''r'']
      else if n < 32 \<or> (127 \<le> n \<and> n \<le> 160) \<or> n = 173
        then [CHR 0x5C, CHR ''x'', hex_digit (n div 16), hex_digit (n mod 16)]
      else [c])"

definition repr_str :: "string \<Rightarrow> string" where
  "repr_str s =
     (let quote = (if List.member s (CHR 0x27) \<and> \<not> List.member s (CHR 0x22)
                   then CHR 0x22 else CHR 0x27)
      in [quote] @ concat (map (repr_char quote) s) @ [quote])"

fun py_repr :: "json \<Rightarrow> string" where
  "py_repr JNull = ''None''"
| "py_repr (JBool b) = (if b then ''True'' else ''False'')"
| "py_repr (JInt i) = py_str_int i"
| "py_repr (JFloat printed) = printed"
| "py_repr (JStr s) = repr_str s"
| "py_repr (JList xs) = ''['' @ py_join '', '' (map py_repr xs) @ '']''"
| "py_repr (JDict items) =
     ''{'' @ py_join '', '' (map (\<lambda>(k, v). repr_str k @ '': '' @ py_repr v) items) @ ''}''"

text \<open>\<^verbatim>\<open>str(v)\<close>, as an f-string prints a value: a string as it is, the rest as \<^verbatim>\<open>repr\<close>.\<close>

definition py_str :: "json \<Rightarrow> string" where
  "py_str v = (case v of JStr s \<Rightarrow> s | _ \<Rightarrow> py_repr v)"

text \<open>The truth of a value in \<^verbatim>\<open>if v:\<close>.\<close>

fun truthy :: "json \<Rightarrow> bool" where
  "truthy JNull = False"
| "truthy (JBool b) = b"
| "truthy (JInt i) = (i \<noteq> 0)"
| "truthy (JFloat printed) = (printed \<noteq> ''0.0'' \<and> printed \<noteq> ''-0.0'')"
| "truthy (JStr s) = (s \<noteq> [])"
| "truthy (JList xs) = (xs \<noteq> [])"
| "truthy (JDict items) = (items \<noteq> [])"

text \<open>
  The exceptions that the body of the engine can raise. Iterating over a value that is
  not iterable is a \<^verbatim>\<open>TypeError\<close>; a list yields its elements, a string its characters
  and a dictionary its keys.
\<close>

datatype py_exception = TypeError

fun iterate :: "json \<Rightarrow> py_exception + json list" where
  "iterate (JList xs) = Inr xs"
| "iterate (JStr s) = Inr (map (\<lambda>c. JStr [c]) s)"
| "iterate (JDict items) = Inr (map (\<lambda>(k, v). JStr k) items)"
| "iterate JNull = Inl TypeError"
| "iterate (JBool b) = Inl TypeError"
| "iterate (JInt i) = Inl TypeError"
| "iterate (JFloat printed) = Inl TypeError"

text \<open>\<^verbatim>\<open>review.get(key, default)\<close>\<close>

definition dict_get :: "(string \<times> json) list \<Rightarrow> string \<Rightarrow> json \<Rightarrow> json" where
  "dict_get d key fallback = (case map_of d key of Some v \<Rightarrow> v | None \<Rightarrow> fallback)"

definition report_header :: string where
  \<open>report_header =
     ''\<newline>''
     @ ''# Ethics Review Report\<newline>''
     @ ''\<newline>''
     @ ''## Executive Summary\<newline>''
     @ ''This report summarizes the ethical review of submitted documents for your research project. Overall, the documentation meets most ethical requirements with some recommendations for improvement.\<newline>''
     @ ''\<newline>''
     @ ''## Document Analysis\<newline>''\<close>

definition report_placeholder :: string where
  \<open>report_placeholder =
     ''\<newline>''
     @ ''No document reviews are available. Please ensure all required documents have been uploaded and reviewed.\<newline>''\<close>

definition report_next_steps :: string where
  \<open>report_next_steps =
     ''\<newline>''
     @ ''## Next Steps\<newline>''
     @ ''1. Address any identified issues in the documents\<newline>''
     @ ''2. Submit revised documentation where required\<newline>''
     @ ''3. Proceed with participant recruitment once all documents are approved\<newline>''
     @ ''\<newline>''
     @ ''For any questions or clarification, please contact the Ethics Committee.\<newline>''\<close>

text \<open>
  A titled list of bullets: \<^verbatim>\<open>if elements: report += title; for i, element in
  enumerate(elements, 1): report += f"- {element}\n"\<close>.
\<close>

definition bullet_block :: "string \<Rightarrow> json \<Rightarrow> py_exception + string" where
  "bullet_block title elements =
     (if truthy elements then
        (case iterate elements of
           Inl e \<Rightarrow> Inl e
         | Inr xs \<Rightarrow> Inr (title @ concat (map (\<lambda>element. ''- '' @ py_str element @ ''\<newline>'') xs)))
      else Inr [])"

text \<open>The subsection of one item; an item whose value is not a dictionary adds nothing.\<close>

fun review_section :: "string \<times> json \<Rightarrow> py_exception + string" where
  "review_section (doc_id, JDict review) =
     (let st = dict_get review ''status'' (JStr ''PENDING'');
          an = dict_get review ''analysis'' (JStr ''No analysis available'');
          recs = dict_get review ''recommendations'' (JList []);
          missing = dict_get review ''missing_elements'' (JList []);
          score = dict_get review ''compliance_score'' (JStr ''N/A'')
      in case bullet_block ''\<newline>**Missing Elements**:\<newline>'' missing of
           Inl e \<Rightarrow> Inl e
         | Inr missing_block \<Rightarrow>
             (case bullet_block ''\<newline>**Recommendations**:\<newline>'' recs of
                Inl e \<Rightarrow> Inl e
              | Inr recs_block \<Rightarrow>
                  Inr (''\<newline>### Document ID: '' @ doc_id @ ''\<newline>''
                       @ ''**Status**: '' @ py_str st @ ''\<newline>''
                       @ (if score \<noteq> JStr ''N/A''
                          then ''**Compliance Score**: '' @ py_str score @ ''/100\<newline>'' else [])
                       @ ''\<newline>**Analysis**: '' @ py_str an @ ''\<newline>''
                       @ missing_block @ recs_block
                       @ ''\<newline>---\<newline>'')))"
| "review_section (doc_id, JNull) = Inr []"
| "review_section (doc_id, JBool b) = Inr []"
| "review_section (doc_id, JInt i) = Inr []"
| "review_section (doc_id, JFloat printed) = Inr []"
| "review_section (doc_id, JStr s) = Inr []"
| "review_section (doc_id, JList xs) = Inr []"

fun review_sections :: "reviews \<Rightarrow> py_exception + string" where
  "review_sections [] = Inr []"
| "review_sections (item # items) =
     (case review_section item of
        Inl e \<Rightarrow> Inl e
      | Inr section_text \<Rightarrow>
          (case review_sections items of
             Inl e \<Rightarrow> Inl e
           | Inr rest \<Rightarrow> Inr (section_text @ rest)))"

text \<open>
  \<open>now\<close> is the reading of the clock when the report is returned, as
  \<^verbatim>\<open>datetime.now().strftime("%Y-%m-%d %H:%M:%S")\<close> prints it.
\<close>

definition generate_review_report :: "reviews \<Rightarrow> string \<Rightarrow> py_exception + report_obj" where
  "generate_review_report reviews now =
     (case (if reviews \<noteq> [] then review_sections reviews else Inr report_placeholder) of
        Inl e \<Rightarrow> Inl e
      | Inr body \<Rightarrow>
          Inr \<lparr> status = ''COMPLETED'',
                report = report_header @ body @ report_next_steps,
                generated_at = now \<rparr>)"

section \<open>The engine\<close>

record message =
  role :: string
  content :: string

text \<open>
  The loop over the messages keeps the content of the last message of role \<^verbatim>\<open>user\<close>
  and of the last one of role \<^verbatim>\<open>system\<close>; both start as \<^verbatim>\<open>None\<close>.
\<close>

fun scan_messages ::
  "message list \<Rightarrow> string option \<times> string option \<Rightarrow> string option \<times> string option" where
  "scan_messages [] (last_user_message, system_message) = (last_user_message, system_message)"
| "scan_messages (msg # msgs) (last_user_message, system_message) =
     (if role msg = ''user'' then scan_messages msgs (Some (content msg), system_message)
      else if role msg = ''system'' then scan_messages msgs (last_user_message, Some (content msg))
      else scan_messages msgs (last_user_message, system_message))"

text \<open>
  The chain of \<^verbatim>\<open>if\<close>/\<^verbatim>\<open>elif\<close> tests of \<^verbatim>\<open>get_completion\<close>, in its order. The
  fourth test is the conditional expression
  \<^verbatim>\<open>"review report" in system_message.lower() if system_message else False or
  "generate a review report" in last_user_message.lower()\<close>, which Python reads as
  \<^verbatim>\<open>A if system_message else (False or B)\<close>; a system message that is \<^verbatim>\<open>None\<close>
  or empty is false.
\<close>

datatype path =
    DocumentReview
  | ContextAnalysis
  | QuestionFeedback
  | ReportGeneration
  | Fallback

definition classify :: "string option \<Rightarrow> string \<Rightarrow> path" where
  "classify system_message last_user_message =
     (if py_in ''Document Content Preview:'' last_user_message then DocumentReview
      else if py_in ''research context'' (lower last_user_message) then ContextAnalysis
      else if py_in ''Question:'' last_user_message \<and> py_in ''Response:'' last_user_message
        then QuestionFeedback
      else if (case system_message of
                 None \<Rightarrow> False \<or> py_in ''generate a review report'' (lower last_user_message)
               | Some s \<Rightarrow>
                   if s \<noteq> [] then py_in ''review report'' (lower s)
                   else False \<or> py_in ''generate a review report'' (lower last_user_message))
        then ReportGeneration
      else Fallback)"

text \<open>The pieces a document-review message is cut into: content, question and name.\<close>

definition extract_doc_content :: "string \<Rightarrow> string" where
  "extract_doc_content last_user_message =
     (let doc_content_start =
            py_find last_user_message ''Document Content Preview:''
            + int (length ''Document Content Preview:'');
          doc_content_end =
            (if py_in ''Please analyze'' last_user_message
             then py_find last_user_message ''Please analyze''
             else int (length last_user_message))
      in py_strip (py_slice last_user_message doc_content_start doc_content_end))"

definition extract_question :: "string \<Rightarrow> string" where
  "extract_question last_user_message =
     (let question_start =
            py_find last_user_message ''Ethics Question:'' + int (length ''Ethics Question:'');
          question_end = py_find last_user_message ''Document Name:''
      in if question_start < question_end
         then py_strip (py_slice last_user_message question_start question_end) else [])"

definition extract_doc_name :: "string \<Rightarrow> string" where
  "extract_doc_name last_user_message =
     (let doc_name_start =
            py_find last_user_message ''Document Name:'' + int (length ''Document Name:'');
          doc_name_end = py_find last_user_message ''Document Type:''
      in if doc_name_start < doc_name_end
         then py_strip (py_slice last_user_message doc_name_start doc_name_end) else [])"

text \<open>The pieces of a question-feedback message.\<close>

definition extract_feedback_question :: "string \<Rightarrow> string" where
  "extract_feedback_question last_user_message =
     (let question_start = py_find last_user_message ''Question:'' + int (length ''Question:'');
          question_end = py_find last_user_message ''Response:''
      in py_strip (py_slice last_user_message question_start question_end))"

definition extract_feedback_response :: "string \<Rightarrow> string" where
  "extract_feedback_response last_user_message =
     (let response_start = py_find last_user_message ''Response:'' + int (length ''Response:'');
          response_end =
            (if py_in ''Document Name:'' last_user_message
             then py_find last_user_message ''Document Name:''
             else int (length last_user_message))
      in py_strip (py_slice last_user_message response_start response_end))"

text \<open>
  The reviews of a report request: the text from the first \<^verbatim>\<open>{\<close> to the last
  \<^verbatim>\<open>}\<close> goes to \<^verbatim>\<open>json.loads\<close>, and any exception leaves \<^verbatim>\<open>reviews\<close> empty.
  The parser belongs to Python's library and is a parameter here: \<open>None\<close> stands for an
  exception, and a text that opens with a brace parses to a dictionary or not at all.
\<close>

definition extract_reviews :: "(string \<Rightarrow> reviews option) \<Rightarrow> string \<Rightarrow> reviews" where
  "extract_reviews json_loads last_user_message =
     (let start_idx = py_find last_user_message ''{'';
          end_idx = py_rfind last_user_message ''}'' + 1
      in if 0 \<le> start_idx \<and> start_idx < end_idx
         then (case json_loads (py_slice last_user_message start_idx end_idx) of
                 Some reviews \<Rightarrow> reviews
               | None \<Rightarrow> [])
         else [])"

definition fallback_text :: string where
  "fallback_text = ''I'm here to assist with your research ethics application. Please provide specific details about your research or questions about ethical requirements.''"

definition no_user_message_error :: error_obj where
  "no_user_message_error =
     \<lparr> status = ''ERROR'', message = ''No user message found in the conversation.'' \<rparr>"

definition service_unavailable_error :: error_obj where
  "service_unavailable_error =
     \<lparr> status = ''ERROR'', message = ''AI service unavailable. Please try again later.'' \<rparr>"

text \<open>\<^verbatim>\<open>API_CONFIG['max_retries']\<close> of \<^verbatim>\<open>config.py\<close>.\<close>

definition max_retries :: nat where
  "max_retries = 3"

text \<open>
  One pass through the \<^verbatim>\<open>try\<close> body of \<^verbatim>\<open>get_completion\<close>: the value it returns,
  or the exception it raises. On messages whose role and content are strings, the report
  composer is the only step that can raise.
\<close>

definition attempt ::
  "(string \<Rightarrow> reviews option) \<Rightarrow> string \<Rightarrow> message list \<Rightarrow> py_exception + response" where
  "attempt json_loads now messages =
     (case scan_messages messages (None, None) of
        (None, system_message) \<Rightarrow> Inr (Error no_user_message_error)
      | (Some last_user_message, system_message) \<Rightarrow>
          if last_user_message = [] then Inr (Error no_user_message_error)
          else (case classify system_message last_user_message of
                  DocumentReview \<Rightarrow>
                    Inr (Verdict (generate_document_review
                                    (extract_doc_content last_user_message)
                                    (extract_question last_user_message)
                                    (extract_doc_name last_user_message)))
                | ContextAnalysis \<Rightarrow>
                    Inr (Text (generate_research_context_analysis last_user_message))
                | QuestionFeedback \<Rightarrow>
                    Inr (generate_question_feedback
                           (extract_feedback_question last_user_message)
                           (extract_feedback_response last_user_message))
                | ReportGeneration \<Rightarrow>
                    (case generate_review_report
                            (extract_reviews json_loads last_user_message) now of
                       Inl e \<Rightarrow> Inl e
                     | Inr rep \<Rightarrow> Inr (Report rep))
                | Fallback \<Rightarrow> Inr (Text fallback_text)))"

text \<open>
  The instance of \<^verbatim>\<open>AzureAIWrapper\<close>: the three fields that \<^verbatim>\<open>__init__\<close> sets from
  the configuration (an unset environment variable is \<^verbatim>\<open>None\<close>).
\<close>

record azure_ai_wrapper =
  endpoint :: "string option"
  api_key :: "string option"
  model :: string

text \<open>
  \<^verbatim>\<open>get_completion\<close> is the loop \<^verbatim>\<open>while retries < max_retries\<close> around the body: a
  pass that returns ends the call, a pass that raises is logged, counted and (after a
  sleep) tried again, and when the count is used up the call returns the error object of
  an unavailable service. The call is given the instance and returns it with the result,
  as it leaves it. The log and the sleeps do not reach the result and are left out. A pass
  reads the clock only when it returns a report, so one reading serves the call.
\<close>

function retry_loop ::
  "nat \<Rightarrow> azure_ai_wrapper \<Rightarrow> (string \<Rightarrow> reviews option) \<Rightarrow> string \<Rightarrow> message list
   \<Rightarrow> response \<times> azure_ai_wrapper" where
  "retry_loop retries self json_loads now messages =
     (if retries < max_retries then
        (case attempt json_loads now messages of
           Inr result \<Rightarrow> (result, self)
         | Inl e \<Rightarrow> retry_loop (retries + 1) self json_loads now messages)
      else (Error service_unavailable_error, self))"
  by pat_completeness auto
termination
  by (relation "measure (\<lambda>(retries, self, json_loads, now, messages). max_retries - retries)")
    auto

definition get_completion ::
  "azure_ai_wrapper \<Rightarrow> (string \<Rightarrow> reviews option) \<Rightarrow> string \<Rightarrow> message list
   \<Rightarrow> response \<times> azure_ai_wrapper" where
  "get_completion self json_loads now messages = retry_loop 0 self json_loads now messages"

section \<open>Properties stated about the engine\<close>

text \<open>
  The contract between the score and the status of a verdict: the thresholds 90 and 70 of
  the typed scorers with a score between 0 and 100, and the thresholds 80 and 60 of the
  generic scorer.
\<close>

definition typed_contract :: "verdict \<Rightarrow> bool" where
  "typed_contract v =
     (0 \<le> compliance_score v \<and> compliance_score v \<le> 100
      \<and> (status v = ''APPROVED'') = (90 \<le> compliance_score v)
      \<and> (status v = ''ANALYZING'') = (70 \<le> compliance_score v \<and> compliance_score v < 90)
      \<and> (status v = ''NEEDS_REVISION'') = (compliance_score v < 70))"

definition generic_contract :: "verdict \<Rightarrow> bool" where
  "generic_contract v =
     ((status v = ''APPROVED'') = (80 \<le> compliance_score v)
      \<and> (status v = ''ANALYZING'') = (60 \<le> compliance_score v \<and> compliance_score v < 80)
      \<and> (status v = ''NEEDS_REVISION'') = (compliance_score v < 60))"

text \<open>
  The score as the specification words it: 100 times the fraction of present categories,
  rounded to the nearest integer (Python's \<^verbatim>\<open>round\<close>, ties to even).
\<close>

definition spec_round_pct :: "nat \<Rightarrow> nat \<Rightarrow> int" where
  "spec_round_pct present_count total_categories =
     round_half_even (100 * int present_count) (int total_categories)"

text \<open>A response with the time stamp of a report blanked.\<close>

definition drop_timestamp :: "response \<Rightarrow> response" where
  "drop_timestamp r = (case r of Report rep \<Rightarrow> Report (rep\<lparr>generated_at := []\<rparr>) | _ \<Rightarrow> r)"

text \<open>
  Two parsers for evaluating the engine on concrete messages: one that raises on every
  text, and one that returns a given dictionary.
\<close>

definition json_loads_raises :: "string \<Rightarrow> reviews option" where
  "json_loads_raises json_str = None"

definition json_loads_gives :: "reviews \<Rightarrow> string \<Rightarrow> reviews option" where
  "json_loads_gives reviews json_str = Some reviews"

text \<open>An instance, as \<^verbatim>\<open>__init__\<close> builds it when the environment sets nothing.\<close>

definition unconfigured_wrapper :: azure_ai_wrapper where
  "unconfigured_wrapper = \<lparr> endpoint = None, api_key = None, model = ''gpt-4-32k'' \<rparr>"

text \<open>
  A question-feedback prompt with a document attached, built as \<^verbatim>\<open>get_question_feedback\<close>
  of \<^verbatim>\<open>app.py\<close> builds it: question, response, then name, type and content of the
  document, then the request for feedback.
\<close>

definition feedback_prompt_with_document :: string where
  \<open>feedback_prompt_with_document =
     ''Question: Does your research involve human participants?\<newline>''
     @ ''Response: YES\<newline>''
     @ ''\<newline>''
     @ ''Document Name: Informed_Consent_Form.docx\<newline>''
     @ ''Document Type: Consent Form\<newline>''
     @ ''Document Content Preview:\<newline>''
     @ ''I consent to take part in this study.\<newline>''
     @ ''\<newline>''
     @ ''Please provide specific, detailed feedback on this ethics question response.''\<close>

section \<open>Facts about the float arithmetic\<close>

text \<open>
  For the table sizes of the typed scorers (6, 7, 8 and 9 categories) the double
  computation \<^verbatim>\<open>int((k / n) * 100)\<close> gives the integer part of \<open>100 k / n\<close>; each
  case is computed.
\<close>

lemma py_pct_6: "k \<le> 6 \<Longrightarrow> py_pct k 6 = int (100 * k div 6)"
proof -
  have "\<forall>k \<in> set [0..<7]. py_pct k 6 = int (100 * k div 6)" by code_simp
  then show "k \<le> 6 \<Longrightarrow> py_pct k 6 = int (100 * k div 6)" by simp
qed

lemma py_pct_7: "k \<le> 7 \<Longrightarrow> py_pct k 7 = int (100 * k div 7)"
proof -
  have "\<forall>k \<in> set [0..<8]. py_pct k 7 = int (100 * k div 7)" by code_simp
  then show "k \<le> 7 \<Longrightarrow> py_pct k 7 = int (100 * k div 7)" by simp
qed

lemma py_pct_8: "k \<le> 8 \<Longrightarrow> py_pct k 8 = int (100 * k div 8)"
proof -
  have "\<forall>k \<in> set [0..<9]. py_pct k 8 = int (100 * k div 8)" by code_simp
  then show "k \<le> 8 \<Longrightarrow> py_pct k 8 = int (100 * k div 8)" by simp
qed

lemma py_pct_9: "k \<le> 9 \<Longrightarrow> py_pct k 9 = int (100 * k div 9)"
proof -
  have "\<forall>k \<in> set [0..<10]. py_pct k 9 = int (100 * k div 9)" by code_simp
  then show "k \<le> 9 \<Longrightarrow> py_pct k 9 = int (100 * k div 9)" by simp
qed

text \<open>The double product can fall below the exact one: \<^verbatim>\<open>int((29 / 100) * 100)\<close> is 28.\<close>

lemma py_pct_29_100: "py_pct 29 100 = 28"
  by code_simp

section \<open>Facts about the scorers\<close>

lemma length_present_of: "length (present_of key_elements doc_content) \<le> length key_elements"
  by (simp add: present_of_def)

lemma typed_status_iff:
  "(typed_status s = ''APPROVED'') = (90 \<le> s)"
  "(typed_status s = ''ANALYZING'') = (70 \<le> s \<and> s < 90)"
  "(typed_status s = ''NEEDS_REVISION'') = (s < 70)"
  by (auto simp: typed_status_def)

lemma generic_status_iff:
  "(generic_status s = ''APPROVED'') = (80 \<le> s)"
  "(generic_status s = ''ANALYZING'') = (60 \<le> s \<and> s < 80)"
  "(generic_status s = ''NEEDS_REVISION'') = (s < 60)"
  by (auto simp: generic_status_def)

lemma table_lengths:
  "length consent_key_elements = 8" "length protocol_key_elements = 8"
  "length application_key_elements = 9" "length cv_key_elements = 6"
  "length survey_key_elements = 7"
  by (simp_all add: consent_key_elements_def protocol_key_elements_def
      application_key_elements_def cv_key_elements_def survey_key_elements_def)

lemma consent_fields:
  "compliance_score (analyze_consent_form d) = py_pct (length (present_of consent_key_elements d)) 8"
  "status (analyze_consent_form d) = typed_status (compliance_score (analyze_consent_form d))"
  by (simp_all add: analyze_consent_form_def Let_def table_lengths)

lemma protocol_fields:
  "compliance_score (analyze_research_protocol d) = py_pct (length (present_of protocol_key_elements d)) 8"
  "status (analyze_research_protocol d) = typed_status (compliance_score (analyze_research_protocol d))"
  by (simp_all add: analyze_research_protocol_def Let_def table_lengths)

lemma application_fields:
  "compliance_score (analyze_ethics_application_form d) = py_pct (length (present_of application_key_elements d)) 9"
  "status (analyze_ethics_application_form d) = typed_status (compliance_score (analyze_ethics_application_form d))"
  by (simp_all add: analyze_ethics_application_form_def Let_def table_lengths)

lemma cv_fields:
  "compliance_score (analyze_cv d) = py_pct (length (present_of cv_key_elements d)) 6"
  "status (analyze_cv d) = typed_status (compliance_score (analyze_cv d))"
  by (simp_all add: analyze_cv_def Let_def table_lengths)

lemma survey_fields:
  "compliance_score (analyze_survey d) = py_pct (length (present_of survey_key_elements d)) 7"
  "status (analyze_survey d) = typed_status (compliance_score (analyze_survey d))"
  by (simp_all add: analyze_survey_def Let_def table_lengths)

lemma generic_fields:
  "status (analyze_generic_document d q t) = generic_status (compliance_score (analyze_generic_document d q t))"
  by (simp add: analyze_generic_document_def Let_def)

lemma consent_score:
  "compliance_score (analyze_consent_form d) = int (100 * length (present_of consent_key_elements d) div 8)"
  using length_present_of [of consent_key_elements d]
  by (simp add: consent_fields table_lengths py_pct_8)

lemma protocol_score:
  "compliance_score (analyze_research_protocol d) = int (100 * length (present_of protocol_key_elements d) div 8)"
  using length_present_of [of protocol_key_elements d]
  by (simp add: protocol_fields table_lengths py_pct_8)

lemma application_score:
  "compliance_score (analyze_ethics_application_form d) = int (100 * length (present_of application_key_elements d) div 9)"
  using length_present_of [of application_key_elements d]
  by (simp add: application_fields table_lengths py_pct_9)

lemma cv_score:
  "compliance_score (analyze_cv d) = int (100 * length (present_of cv_key_elements d) div 6)"
  using length_present_of [of cv_key_elements d]
  by (simp add: cv_fields table_lengths py_pct_6)

lemma survey_score:
  "compliance_score (analyze_survey d) = int (100 * length (present_of survey_key_elements d) div 7)"
  using length_present_of [of survey_key_elements d]
  by (simp add: survey_fields table_lengths py_pct_7)

lemma typed_contractI:
  assumes "status v = typed_status (compliance_score v)"
    and "compliance_score v = int (100 * k div n)" and "k \<le> n" and "0 < n"
  shows "typed_contract v"
proof -
  have "100 * k div n \<le> 100 * n div n"
    using assms(3) by (intro div_le_mono) simp
  also have "\<dots> = 100"
    using assms(4) by simp
  finally have "100 * k div n \<le> 100" .
  then show ?thesis
    using assms(1,2) by (simp add: typed_contract_def typed_status_iff)
qed

section \<open>Facts about the document types\<close>

lemma protocol_in_study_protocol: "py_in ''study protocol'' s \<Longrightarrow> py_in ''protocol'' s"
proof -
  have "sublist ''protocol'' ''study protocol''" by code_simp
  then show "py_in ''study protocol'' s \<Longrightarrow> py_in ''protocol'' s"
    unfolding py_in_def by (rule sublist_order.order_trans)
qed

lemma expected_not_study_protocol:
  "determine_expected_document_type question \<noteq> ''Study Protocol''"
  by (auto simp: determine_expected_document_type_def Let_def dest: protocol_in_study_protocol)

lemma actual_not_study_protocol:
  "determine_actual_document_type doc_name doc_content \<noteq> ''Study Protocol''"
  by (simp add: determine_actual_document_type_def Let_def)

section \<open>Facts about the document review\<close>

text \<open>
  Every scorer opens its analysis with \<^verbatim>\<open>This\<close>, the verdict of an irrelevant document
  with \<^verbatim>\<open>The\<close>: no scorer returns that verdict.
\<close>

lemma scorer_analysis_prefix:
  "take 3 (analysis (analyze_consent_form d)) = ''Thi''"
  "take 3 (analysis (analyze_research_protocol d)) = ''Thi''"
  "take 3 (analysis (analyze_ethics_application_form d)) = ''Thi''"
  "take 3 (analysis (analyze_cv d)) = ''Thi''"
  "take 3 (analysis (analyze_survey d)) = ''Thi''"
  "take 3 (analysis (analyze_generic_document d q t)) = ''Thi''"
  by (simp_all add: analyze_consent_form_def analyze_research_protocol_def
      analyze_ethics_application_form_def analyze_cv_def analyze_survey_def
      analyze_generic_document_def Let_def)

lemma score_document_analysis_prefix:
  "take 3 (analysis (score_document t d q)) = ''Thi''"
  by (simp add: score_document_def scorer_analysis_prefix)

lemma irrelevant_analysis_prefix:
  "take 3 (analysis (irrelevant_verdict e a)) = ''The''"
  by (simp add: irrelevant_verdict_def)

lemma score_document_not_irrelevant:
  "score_document t d q \<noteq> irrelevant_verdict e a"
proof
  assume "score_document t d q = irrelevant_verdict e a"
  then have "take 3 (analysis (score_document t d q)) = take 3 (analysis (irrelevant_verdict e a))"
    by simp
  then show False
    by (simp add: score_document_analysis_prefix irrelevant_analysis_prefix)
qed

section \<open>Facts about the engine\<close>

lemma scan_messages_no_user:
  "\<forall>msg \<in> set messages. role msg \<noteq> ''user'' \<Longrightarrow>
   fst (scan_messages messages (last_user_message, system_message)) = last_user_message"
  by (induction messages arbitrary: system_message) simp_all

text \<open>The retry loop: a pass that returns ends the call; a pass that raises does so three
  times, and the call returns the error object of an unavailable service.\<close>

declare retry_loop.simps [simp del]

lemma get_completion_returns:
  "attempt json_loads now messages = Inr result \<Longrightarrow>
   get_completion self json_loads now messages = (result, self)"
  by (simp add: get_completion_def retry_loop.simps [of 0] max_retries_def)

lemma retry_loop_raises:
  assumes "attempt json_loads now messages = Inl e"
  shows "retry_loop retries self json_loads now messages
         = (Error service_unavailable_error, self)"
  using assms
proof (induction retries self json_loads now messages rule: retry_loop.induct)
  case (1 retries self json_loads now messages)
  then show ?case
    by (simp add: retry_loop.simps [of retries])
qed

lemma get_completion_raises:
  "attempt json_loads now messages = Inl e \<Longrightarrow>
   get_completion self json_loads now messages = (Error service_unavailable_error, self)"
  by (simp add: get_completion_def retry_loop_raises)

text \<open>
  A report request whose review holds \<^verbatim>\<open>"missing_elements": 5\<close>: the composer iterates
  over the integer, every pass raises, and the call ends with the error object.
\<close>

lemma non_iterable_review_exhausts_retries:
  \<open>get_completion unconfigured_wrapper
     (json_loads_gives [(''d'', JDict [(''missing_elements'', JInt 5)])]) ''2025-01-01 10:00:00''
     [\<lparr> role = ''system'', content = ''You are a review report generator.'' \<rparr>,
      \<lparr> role = ''user'', content = ''Reviews: {"d": {"missing_elements": 5}}'' \<rparr>]
   = (Error \<lparr> status = ''ERROR'', message = ''AI service unavailable. Please try again later.'' \<rparr>,
      unconfigured_wrapper)\<close>
  by code_simp

text \<open>
  Whether a pass raises does not depend on the clock, and neither does what it returns,
  but for the time stamp of a report.
\<close>

lemma attempt_clock:
  "map_sum id drop_timestamp (attempt json_loads now messages)
   = map_sum id drop_timestamp (attempt json_loads now' messages)"
  by (simp add: attempt_def drop_timestamp_def generate_review_report_def
      split: prod.split option.split path.split sum.split)

lemma empty_report_text:
  "py_in ''No document reviews are available. Please ensure all required documents have been uploaded and reviewed.''
     (report_header @ report_placeholder @ report_next_steps)"
  "\<not> py_in ''### Document ID:'' (report_header @ report_placeholder @ report_next_steps)"
  by code_simp+

section \<open>The claims\<close>

text \<open>
  C1. Every typed scorer (consent form, research protocol, ethics application form, CV,
  survey) returns an integer score between 0 and 100, with status \<^verbatim>\<open>APPROVED\<close> exactly
  when the score is at least 90, \<^verbatim>\<open>ANALYZING\<close> exactly when it is at least 70 and below
  90, and \<^verbatim>\<open>NEEDS_REVISION\<close> exactly when it is below 70. The generic scorer has the
  same three statuses with the thresholds 80 and 60.
\<close>

theorem scorer_thresholds:
  "typed_contract (analyze_consent_form d)
   \<and> typed_contract (analyze_research_protocol d)
   \<and> typed_contract (analyze_ethics_application_form d)
   \<and> typed_contract (analyze_cv d)
   \<and> typed_contract (analyze_survey d)
   \<and> generic_contract (analyze_generic_document d q t)"
proof (intro conjI)
  show "typed_contract (analyze_consent_form d)"
    using length_present_of [of consent_key_elements d]
    by (intro typed_contractI [OF consent_fields(2) consent_score]) (simp_all add: table_lengths)
  show "typed_contract (analyze_research_protocol d)"
    using length_present_of [of protocol_key_elements d]
    by (intro typed_contractI [OF protocol_fields(2) protocol_score]) (simp_all add: table_lengths)
  show "typed_contract (analyze_ethics_application_form d)"
    using length_present_of [of application_key_elements d]
    by (intro typed_contractI [OF application_fields(2) application_score]) (simp_all add: table_lengths)
  show "typed_contract (analyze_cv d)"
    using length_present_of [of cv_key_elements d]
    by (intro typed_contractI [OF cv_fields(2) cv_score]) (simp_all add: table_lengths)
  show "typed_contract (analyze_survey d)"
    using length_present_of [of survey_key_elements d]
    by (intro typed_contractI [OF survey_fields(2) survey_score]) (simp_all add: table_lengths)
  show "generic_contract (analyze_generic_document d q t)"
    by (simp add: generic_contract_def generic_fields generic_status_iff)
qed

text \<open>
  C5, as the specification states it: the score of a typed scorer is
  \<^verbatim>\<open>round(100 * present_count / total_categories)\<close>, so that 8 of 9 categories give 89.
  The code truncates: an ethics application form with 8 of its 9 categories present
  scores 88.
\<close>

theorem truncated_score_counterexample:
  "length (present_of application_key_elements
       ''researcher project method participant ethic risk data consent'') = 8
   \<and> length application_key_elements = 9
   \<and> compliance_score (analyze_ethics_application_form
       ''researcher project method participant ethic risk data consent'') = 88
   \<and> spec_round_pct 8 9 = 89"
  by code_simp

text \<open>
  C5, amended: the score of every typed scorer is the integer part of
  \<open>100 * present_count / total_categories\<close>, that is, the fraction of present categories
  times 100, rounded down.
\<close>

theorem typed_score_is_floor:
  "compliance_score (analyze_consent_form d)
     = int (100 * length (present_of consent_key_elements d) div length consent_key_elements)
   \<and> compliance_score (analyze_research_protocol d)
     = int (100 * length (present_of protocol_key_elements d) div length protocol_key_elements)
   \<and> compliance_score (analyze_ethics_application_form d)
     = int (100 * length (present_of application_key_elements d) div length application_key_elements)
   \<and> compliance_score (analyze_cv d)
     = int (100 * length (present_of cv_key_elements d) div length cv_key_elements)
   \<and> compliance_score (analyze_survey d)
     = int (100 * length (present_of survey_key_elements d) div length survey_key_elements)"
  by (simp only: table_lengths consent_score protocol_score application_score cv_score
      survey_score simp_thms)

text \<open>
  C10. The inference of the expected type never returns \<^verbatim>\<open>Study Protocol\<close>: a question
  that contains \<^verbatim>\<open>study protocol\<close> contains \<^verbatim>\<open>protocol\<close> and is taken by an earlier
  rule. The inference of the actual type never returns it either. So the test for
  \<^verbatim>\<open>Study Protocol\<close> in the dispatch of the document review never holds: the review is
  the same with the test removed.
\<close>

theorem study_protocol_unreachable:
  "determine_expected_document_type question \<noteq> ''Study Protocol''
   \<and> determine_actual_document_type doc_name doc_content \<noteq> ''Study Protocol''
   \<and> generate_document_review doc_content question doc_name
       = (let expected_doc_type = determine_expected_document_type question;
              actual_doc_type = determine_actual_document_type doc_name doc_content
          in if \<not> is_document_relevant expected_doc_type actual_doc_type doc_content question
             then irrelevant_verdict expected_doc_type actual_doc_type
             else if actual_doc_type = ''Consent Form'' then analyze_consent_form doc_content
             else if actual_doc_type = ''Research Protocol''
               then analyze_research_protocol doc_content
             else if actual_doc_type = ''Ethics Committee Application Form''
               then analyze_ethics_application_form doc_content
             else if actual_doc_type = ''CV/Resume'' then analyze_cv doc_content
             else if actual_doc_type = ''Survey/Questionnaire'' then analyze_survey doc_content
             else analyze_generic_document doc_content question actual_doc_type)"
  using expected_not_study_protocol [of question]
    actual_not_study_protocol [of doc_name doc_content]
  by (simp add: generate_document_review_def score_document_def Let_def)

text \<open>
  C2. When the expected and the actual type are equal, the relevance gate returns true,
  whatever the document and the question. So a review whose inferred types are equal is
  the verdict of the scorer of that type, and never the verdict of an irrelevant document
  (the one with score 20).
\<close>

theorem relevance_gate_passes_on_equal_types:
  "is_document_relevant t t doc_content question
   \<and> (determine_expected_document_type question
        = determine_actual_document_type doc_name doc_content
      \<longrightarrow> generate_document_review doc_content question doc_name
            = score_document (determine_actual_document_type doc_name doc_content)
                doc_content question
          \<and> (\<forall>e a. generate_document_review doc_content question doc_name
                     \<noteq> irrelevant_verdict e a))"
proof (intro conjI impI)
  show "is_document_relevant t t doc_content question"
    by (simp add: is_document_relevant_def)
next
  assume same: "determine_expected_document_type question
                  = determine_actual_document_type doc_name doc_content"
  then show review: "generate_document_review doc_content question doc_name
          = score_document (determine_actual_document_type doc_name doc_content)
              doc_content question"
    by (simp add: generate_document_review_def Let_def is_document_relevant_def)
  show "\<forall>e a. generate_document_review doc_content question doc_name \<noteq> irrelevant_verdict e a"
    unfolding review by (simp add: score_document_not_irrelevant)
qed

theorem relevance_gate_passes_on_equal_types_witness:
  "determine_expected_document_type ''Please upload your consent form''
     = determine_actual_document_type ''consent.txt'' ''I consent''
   \<and> is_document_relevant ''Consent Form'' ''Consent Form'' ''I consent''
       ''Please upload your consent form''
   \<and> generate_document_review ''I consent'' ''Please upload your consent form'' ''consent.txt''
       = score_document (determine_actual_document_type ''consent.txt'' ''I consent'')
           ''I consent'' ''Please upload your consent form''
   \<and> (\<forall>e a. generate_document_review ''I consent'' ''Please upload your consent form''
                ''consent.txt'' \<noteq> irrelevant_verdict e a)"
proof -
  have same: "determine_expected_document_type ''Please upload your consent form''
     = determine_actual_document_type ''consent.txt'' ''I consent''"
    by code_simp
  show ?thesis
    using same relevance_gate_passes_on_equal_types
      [of "''Consent Form''" "''I consent''" "''Please upload your consent form''"
          "''consent.txt''"]
    by blast
qed

text \<open>
  C3, as the specification states it: every field of the verdict of an irrelevant
  document is independent of the document's content. Two documents of the same name,
  reviewed for the same question and both judged not relevant, get different analyses:
  the analysis names the actual type, which is read from the content when the name
  decides nothing.
\<close>

theorem irrelevant_analysis_counterexample:
  "\<not> is_document_relevant
        (determine_expected_document_type ''Please upload your Informed Consent Form'')
        (determine_actual_document_type ''notes.txt'' ''my shopping list'')
        ''my shopping list'' ''Please upload your Informed Consent Form''
   \<and> \<not> is_document_relevant
        (determine_expected_document_type ''Please upload your Informed Consent Form'')
        (determine_actual_document_type ''notes.txt'' ''protocol methodology'')
        ''protocol methodology'' ''Please upload your Informed Consent Form''
   \<and> analysis (generate_document_review ''my shopping list''
         ''Please upload your Informed Consent Form'' ''notes.txt'')
     \<noteq> analysis (generate_document_review ''protocol methodology''
         ''Please upload your Informed Consent Form'' ''notes.txt'')"
  by code_simp

text \<open>
  C3, amended: a review judged not relevant is the verdict with status
  \<^verbatim>\<open>NEEDS_REVISION\<close>, score 20, the two fixed missing elements and exactly two
  recommendations. Status, score, missing elements and the second recommendation are
  constants; the first recommendation names the expected type, read from the question;
  the analysis names the expected type and the actual type, the latter read from the
  document's name and, when the name decides nothing, from its content.
\<close>

theorem irrelevant_review_verdict:
  assumes "\<not> is_document_relevant (determine_expected_document_type question)
               (determine_actual_document_type doc_name doc_content) doc_content question"
  shows "generate_document_review doc_content question doc_name
         = \<lparr> status = ''NEEDS_REVISION'',
             analysis =
               ''The uploaded document does not appear to be the required ''
               @ determine_expected_document_type question
               @ '' for this question. The document appears to be a ''
               @ determine_actual_document_type doc_name doc_content
               @ '', which does not address the requirements of this question.'',
             missing_elements =
               [''Appropriate document type'', ''Content relevant to the question''],
             recommendations =
               [''Upload a '' @ determine_expected_document_type question
                @ '' that specifically addresses this question'',
                ''Ensure the document contains all required elements''],
             compliance_score = 20 \<rparr>
         \<and> length (recommendations (generate_document_review doc_content question doc_name)) = 2"
  using assms by (simp add: generate_document_review_def Let_def irrelevant_verdict_def)

theorem irrelevant_review_verdict_witness:
  "\<not> is_document_relevant
        (determine_expected_document_type ''Please upload your Informed Consent Form'')
        (determine_actual_document_type ''random_notes.txt'' ''my shopping list'')
        ''my shopping list'' ''Please upload your Informed Consent Form''
   \<and> status (generate_document_review ''my shopping list''
         ''Please upload your Informed Consent Form'' ''random_notes.txt'') = ''NEEDS_REVISION''
   \<and> compliance_score (generate_document_review ''my shopping list''
         ''Please upload your Informed Consent Form'' ''random_notes.txt'') = 20
   \<and> missing_elements (generate_document_review ''my shopping list''
         ''Please upload your Informed Consent Form'' ''random_notes.txt'')
       = [''Appropriate document type'', ''Content relevant to the question'']
   \<and> length (recommendations (generate_document_review ''my shopping list''
         ''Please upload your Informed Consent Form'' ''random_notes.txt'')) = 2"
proof -
  have gate: "\<not> is_document_relevant
        (determine_expected_document_type ''Please upload your Informed Consent Form'')
        (determine_actual_document_type ''random_notes.txt'' ''my shopping list'')
        ''my shopping list'' ''Please upload your Informed Consent Form''"
    by code_simp
  show ?thesis
    using gate irrelevant_review_verdict [OF gate] by simp
qed

text \<open>
  C9. A message list with no message of role \<^verbatim>\<open>user\<close> gets the error object: status
  \<^verbatim>\<open>ERROR\<close> and the message \<^verbatim>\<open>No user message found in the conversation.\<close> The
  engine returns it as a value; nothing is raised.
\<close>

theorem no_user_message_gives_error:
  assumes "list_all (\<lambda>msg. role msg \<noteq> ''user'') messages"
  shows "get_completion self json_loads now messages
         = (Error \<lparr> status = ''ERROR'', message = ''No user message found in the conversation.'' \<rparr>,
            self)"
proof -
  obtain u s where scan: "scan_messages messages (None, None) = (u, s)"
    by (cases "scan_messages messages (None, None)")
  from assms have "\<forall>msg \<in> set messages. role msg \<noteq> ''user''"
    by (simp add: list_all_iff)
  from scan_messages_no_user [OF this, of None None] scan have "u = None"
    by simp
  with scan have "attempt json_loads now messages = Inr (Error no_user_message_error)"
    by (simp add: attempt_def)
  then show ?thesis
    by (simp add: get_completion_returns no_user_message_error_def)
qed

theorem no_user_message_gives_error_witness:
  "list_all (\<lambda>msg. role msg \<noteq> ''user'')
     [\<lparr> role = ''system'', content = ''You are a research ethics expert.'' \<rparr>,
      \<lparr> role = ''assistant'', content = ''Hello'' \<rparr>]
   \<and> get_completion unconfigured_wrapper json_loads_raises ''2025-01-01 10:00:00''
        [\<lparr> role = ''system'', content = ''You are a research ethics expert.'' \<rparr>,
         \<lparr> role = ''assistant'', content = ''Hello'' \<rparr>]
      = (Error \<lparr> status = ''ERROR'', message = ''No user message found in the conversation.'' \<rparr>,
         unconfigured_wrapper)"
proof -
  have roles: "list_all (\<lambda>msg. role msg \<noteq> ''user'')
     [\<lparr> role = ''system'', content = ''You are a research ethics expert.'' \<rparr>,
      \<lparr> role = ''assistant'', content = ''Hello'' \<rparr>]"
    by simp
  show ?thesis
    using roles
      no_user_message_gives_error [OF roles, of unconfigured_wrapper json_loads_raises
        "''2025-01-01 10:00:00''"]
    by simp
qed

text \<open>
  C4. The claim: a user message with the document-content marker and no ethics-question
  marker is not handled by the document review. The code tests the document-content
  marker alone and first. A question-feedback prompt with a document attached has
  \<^verbatim>\<open>Question:\<close>, \<^verbatim>\<open>Response:\<close> and \<^verbatim>\<open>Document Content Preview:\<close> but no
  \<^verbatim>\<open>Ethics Question:\<close>; the feedback branch would answer it (it cuts the response at
  \<^verbatim>\<open>Document Name:\<close>), yet the engine reviews it as a document, with a question cut
  from index 15 of the prompt, and rejects the consent form as irrelevant.
\<close>

theorem feedback_prompt_reviewed_as_document:
  "py_in ''Document Content Preview:'' feedback_prompt_with_document
   \<and> \<not> py_in ''Ethics Question:'' feedback_prompt_with_document
   \<and> py_in ''Question:'' feedback_prompt_with_document
   \<and> py_in ''Response:'' feedback_prompt_with_document
   \<and> classify (Some ''You are a research ethics expert.'') feedback_prompt_with_document
       = DocumentReview
   \<and> extract_question feedback_prompt_with_document
       = ''your research involve human participants?\<newline>Response: YES''
   \<and> extract_doc_name feedback_prompt_with_document = ''Informed_Consent_Form.docx''
   \<and> get_completion unconfigured_wrapper json_loads_raises ''2025-01-01 10:00:00''
        [\<lparr> role = ''system'', content = ''You are a research ethics expert.'' \<rparr>,
         \<lparr> role = ''user'', content = feedback_prompt_with_document \<rparr>]
      = (Verdict (irrelevant_verdict ''Supporting Document'' ''Consent Form''),
         unconfigured_wrapper)
   \<and> generate_question_feedback
        (extract_feedback_question feedback_prompt_with_document)
        (extract_feedback_response feedback_prompt_with_document)
      = Text human_participants_yes_text"
  by code_simp

text \<open>
  C7. A system message without the marker and a user message that asks to
  \<^verbatim>\<open>generate a review report\<close>: the fourth test of the classifier is read as
  \<^verbatim>\<open>A if system_message else (False or B)\<close>, so the user message is not looked at, and
  the engine answers with the fallback text instead of a report.
\<close>

theorem report_marker_in_user_message_ignored:
  "classify (Some ''You are a helpful assistant.'') ''Please generate a review report''
     = Fallback
   \<and> get_completion unconfigured_wrapper json_loads_raises ''2025-01-01 10:00:00''
        [\<lparr> role = ''system'', content = ''You are a helpful assistant.'' \<rparr>,
         \<lparr> role = ''user'', content = ''Please generate a review report'' \<rparr>]
      = (Text fallback_text, unconfigured_wrapper)
   \<and> classify None ''Please generate a review report'' = ReportGeneration"
  by code_simp

text \<open>
  C8. For an empty dictionary of reviews, the composer raises nothing and the report is the
  header, the placeholder and the closing section: it holds the sentence
  \<^verbatim>\<open>No document reviews are available. Please ensure all required documents have been
  uploaded and reviewed.\<close>, it holds no \<^verbatim>\<open>### Document ID:\<close> subsection, and the status
  is \<^verbatim>\<open>COMPLETED\<close>.
\<close>

theorem empty_reviews_report:
  "generate_review_report [] now
     = Inr \<lparr> status = ''COMPLETED'',
             report = report_header @ report_placeholder @ report_next_steps,
             generated_at = now \<rparr>
   \<and> py_in ''No document reviews are available. Please ensure all required documents have been uploaded and reviewed.''
        (report_header @ report_placeholder @ report_next_steps)
   \<and> \<not> py_in ''### Document ID:'' (report_header @ report_placeholder @ report_next_steps)"
  by (simp add: generate_review_report_def empty_report_text)

text \<open>
  C6, as the specification states it: two calls with identical input yield identical
  output. A report carries the reading of the clock at the call, so two calls on the same
  instance with the same messages at different times return different objects.
\<close>

theorem report_timestamp_counterexample:
  "get_completion unconfigured_wrapper json_loads_raises ''2025-01-01 10:00:00''
     [\<lparr> role = ''system'', content = ''You are a review report generator.'' \<rparr>,
      \<lparr> role = ''user'', content = ''Please summarise the reviews.'' \<rparr>]
   \<noteq> get_completion unconfigured_wrapper json_loads_raises ''2025-01-01 10:00:01''
     [\<lparr> role = ''system'', content = ''You are a review report generator.'' \<rparr>,
      \<lparr> role = ''user'', content = ''Please summarise the reviews.'' \<rparr>]"
  by code_simp

text \<open>
  C6, amended: a call leaves the fields of the instance as they were, and its output does
  not depend on them: no state is kept between calls. The output is a function of the
  message list and of the clock reading at the call: two calls with identical input, on
  any instances and at any times, yield outputs that are identical but for the
  \<^verbatim>\<open>generated_at\<close> time stamp of a report. This holds through the retry loop: a pass
  that raises at one time raises at any other.
\<close>

theorem engine_stateless_up_to_timestamp:
  "snd (get_completion self json_loads now messages) = self
   \<and> drop_timestamp (fst (get_completion self json_loads now messages))
     = drop_timestamp (fst (get_completion self' json_loads now' messages))"
proof (cases "attempt json_loads now messages")
  case (Inl e)
  with attempt_clock [of json_loads now messages now']
  obtain e' where "attempt json_loads now' messages = Inl e'"
    by (cases "attempt json_loads now' messages") simp_all
  with Inl show ?thesis
    by (simp add: get_completion_raises)
next
  case (Inr result)
  with attempt_clock [of json_loads now messages now']
  obtain result' where other: "attempt json_loads now' messages = Inr result'"
    and same: "drop_timestamp result = drop_timestamp result'"
    by (cases "attempt json_loads now' messages") simp_all
  from Inr other same show ?thesis
    by (simp add: get_completion_returns)
qed

end
